theory Spec2Isabelle
  imports Main "HOL-Library.Sublist" "HOL-Library.Multiset"
begin

section \<open>Python strings and the library calls of \<open>edgar_cik_crawler.py\<close>\<close>

text \<open>
  A Python \<open>str\<close> is a sequence of Unicode code points; a code point is a \<open>nat\<close>.
  \<open>py\<close> reads an ASCII literal as such a sequence.
\<close>

type_synonym pystr = "nat list"

type_synonym bytes = "nat list"

definition py :: "string \<Rightarrow> pystr" where
  "py s = map of_char s"

abbreviation TAB :: nat where "TAB \<equiv> 9"
abbreviation NL :: nat where "NL \<equiv> 10"
abbreviation SP :: nat where "SP \<equiv> 32"

text \<open>The exceptions the script can meet; \<open>Inl\<close> of a result is a raised exception.\<close>

datatype exn =
  ValueError | IndexError | KeyError | TypeError | AttributeError
  | MissingSchema | ConnectionError | ParserError

text \<open>
  \<open>str.isspace\<close> for one code point: the characters \<open>str.split()\<close> and
  \<open>str.strip()\<close> treat as whitespace.
\<close>

definition is_space :: "nat \<Rightarrow> bool" where
  "is_space c \<longleftrightarrow>
     (9 \<le> c \<and> c \<le> 13) \<or> (28 \<le> c \<and> c \<le> 32) \<or> c = 133 \<or> c = 160 \<or> c = 5760
     \<or> (8192 \<le> c \<and> c \<le> 8202) \<or> c = 8232 \<or> c = 8233 \<or> c = 8239 \<or> c = 8287
     \<or> c = 12288"

text \<open>
  \<open>s.split()\<close>: runs of whitespace separate the tokens, no token is empty.
  \<open>cur\<close> is the token being read.
\<close>

fun ws_split :: "pystr \<Rightarrow> pystr \<Rightarrow> pystr list" where
  "ws_split cur [] = (if cur = [] then [] else [cur])"
| "ws_split cur (c # cs) =
     (if is_space c then (if cur = [] then ws_split [] cs else cur # ws_split [] cs)
      else ws_split (cur @ [c]) cs)"

definition py_split :: "pystr \<Rightarrow> pystr list" where
  "py_split s = ws_split [] s"

text \<open>
  \<open>s.split(sep)\<close> for a separator of one character: every occurrence separates, empty
  pieces are kept, and the result is never the empty list.
\<close>

fun sep_split :: "nat \<Rightarrow> pystr \<Rightarrow> pystr \<Rightarrow> pystr list" where
  "sep_split sep cur [] = [cur]"
| "sep_split sep cur (c # cs) =
     (if c = sep then cur # sep_split sep [] cs else sep_split sep (cur @ [c]) cs)"

definition py_split_on :: "nat \<Rightarrow> pystr \<Rightarrow> pystr list" where
  "py_split_on sep s = sep_split sep [] s"

text \<open>\<open>s.strip()\<close>: whitespace is dropped at both ends.\<close>

definition py_strip :: "pystr \<Rightarrow> pystr" where
  "py_strip s = rev (dropWhile is_space (rev (dropWhile is_space s)))"

text \<open>\<open>sep.join(xs)\<close>.\<close>

fun py_join :: "pystr \<Rightarrow> pystr list \<Rightarrow> pystr" where
  "py_join sep [] = []"
| "py_join sep [x] = x"
| "py_join sep (x # y # ys) = x @ sep @ py_join sep (y # ys)"

text \<open>\<open>xs.remove(x)\<close>: the first element equal to \<open>x\<close> goes; ValueError when there is none.\<close>

fun py_remove :: "'a \<Rightarrow> 'a list \<Rightarrow> exn + 'a list" where
  "py_remove x [] = Inl ValueError"
| "py_remove x (y # ys) =
     (if y = x then Inr ys
      else case py_remove x ys of Inl e \<Rightarrow> Inl e | Inr zs \<Rightarrow> Inr (y # zs))"

text \<open>\<open>sub in s\<close> on strings: \<open>sub\<close> occurs in \<open>s\<close> as a contiguous run.\<close>

fun py_in :: "pystr \<Rightarrow> pystr \<Rightarrow> bool" where
  "py_in sub [] = (sub = [])"
| "py_in sub (c # cs) = (prefix sub (c # cs) \<or> py_in sub cs)"

text \<open>\<open>xs[i]\<close> for \<open>i \<ge> 0\<close>: IndexError out of range.\<close>

definition py_index :: "'a list \<Rightarrow> nat \<Rightarrow> exn + 'a" where
  "py_index xs i = (if i < length xs then Inr (xs ! i) else Inl IndexError)"

section \<open>The Record Normalizer: the first loop of \<open>convert_to_tsv\<close>\<close>

text \<open>
  Lines 47 to 49: \<open>for token in new_line_name_tokens\<close>, with the membership test on the
  first six tokens of the list as it is at that moment.
\<close>

fun remove_name_tokens :: "pystr list \<Rightarrow> pystr list \<Rightarrow> exn + pystr list" where
  "remove_name_tokens [] new_line_tokens = Inr new_line_tokens"
| "remove_name_tokens (token # rest) new_line_tokens =
     (if token \<in> set (take 6 new_line_tokens)
      then (case py_remove token new_line_tokens of
              Inl e \<Rightarrow> Inl e
            | Inr ts \<Rightarrow> remove_name_tokens rest ts)
      else remove_name_tokens rest new_line_tokens)"

text \<open>Lines 42 and 43: the name tokens of a line.\<close>

definition name_tokens :: "pystr \<Rightarrow> pystr list" where
  "name_tokens line = filter (\<lambda>t. t \<noteq> []) (take 6 (py_split_on SP line))"

text \<open>Lines 41 to 53: the body of the loop over the lines, for one line.\<close>

definition res_line_tokens :: "pystr \<Rightarrow> exn + pystr list" where
  "res_line_tokens line =
     (let new_line_tokens = py_split line;
          new_line_name_tokens = name_tokens line;
          name = py_join [SP] new_line_name_tokens
      in case remove_name_tokens new_line_name_tokens new_line_tokens of
           Inl e \<Rightarrow> Inl e
         | Inr ts \<Rightarrow> Inr ([name] @ ts))"

text \<open>Lines 34 to 54: the loop over the lines; \<open>res_lines\<close> grows by one record a line.\<close>

fun lines_loop :: "pystr list \<Rightarrow> pystr list list \<Rightarrow> exn + pystr list list" where
  "lines_loop [] res_lines = Inr res_lines"
| "lines_loop (line # rest) res_lines =
     (case res_line_tokens line of
        Inl e \<Rightarrow> Inl e
      | Inr r \<Rightarrow> lines_loop rest (res_lines @ [r]))"

text \<open>Line 31 and the loop: the records of a text block.\<close>

definition text_lines :: "pystr \<Rightarrow> pystr list" where
  "text_lines text = py_split_on NL (py_strip text)"

definition res_lines_of :: "pystr \<Rightarrow> exn + pystr list list" where
  "res_lines_of text = lines_loop (text_lines text) []"

section \<open>The Writer: the second loop of \<open>convert_to_tsv\<close>\<close>

text \<open>
  Lines 59 to 68. \<open>write_ok chunk\<close> says whether \<open>tsv_file.write(chunk)\<close> succeeds; a write
  that raises is swallowed and leaves the file as it was. The file starts empty (mode "w").
\<close>

fun write_loop :: "(pystr \<Rightarrow> bool) \<Rightarrow> pystr list list \<Rightarrow> pystr \<Rightarrow> pystr" where
  "write_loop write_ok [] tsv_file = tsv_file"
| "write_loop write_ok (each # rest) tsv_file =
     (let res_line = py_join [TAB] each
      in write_loop write_ok rest
           (if write_ok (res_line @ [NL]) then tsv_file @ res_line @ [NL] else tsv_file))"

text \<open>\<open>convert_to_tsv\<close>: the path of the file written and its content.\<close>

definition convert_to_tsv ::
  "(pystr \<Rightarrow> bool) \<Rightarrow> pystr \<Rightarrow> pystr \<Rightarrow> exn + (pystr \<times> pystr)" where
  "convert_to_tsv write_ok filename text =
     (case res_lines_of text of
        Inl e \<Rightarrow> Inl e
      | Inr res_lines \<Rightarrow>
          Inr (py ''results/'' @ filename @ py ''.tsv'', write_loop write_ok res_lines []))"

section \<open>The per-line algorithm as the specification words it\<close>

text \<open>
  Step 4 of the specification, for one name candidate: when it appears in the first six
  tokens of \<open>allTokens\<close>, one matching occurrence, the first, leaves \<open>allTokens\<close>. The
  specification calls the step order-dependent: the candidates are taken one after the
  other, and \<open>allTokens\<close> is the list as the candidates before have left it.
\<close>

definition spec_step :: "pystr list \<Rightarrow> pystr \<Rightarrow> pystr list" where
  "spec_step allTokens token =
     (if token \<in> set (take 6 allTokens) then remove1 token allTokens else allTokens)"

definition spec_record :: "pystr \<Rightarrow> pystr list" where
  "spec_record line =
     (let allTokens = py_split line;
          nameCandidates = filter (\<lambda>t. t \<noteq> []) (take 6 (py_split_on SP line));
          name = py_join [SP] nameCandidates
      in name # foldl spec_step allTokens nameCandidates)"

section \<open>Tokens\<close>

text \<open>
  A token in the sense of \<open>str.split()\<close>: not empty and free of whitespace. A piece of a
  line is unmixed when it is free of whitespace or is whitespace throughout.
\<close>

definition is_token :: "pystr \<Rightarrow> bool" where
  "is_token t \<longleftrightarrow> t \<noteq> [] \<and> (\<forall>c \<in> set t. \<not> is_space c)"

definition unmixed :: "pystr \<Rightarrow> bool" where
  "unmixed p \<longleftrightarrow> (\<forall>c \<in> set p. \<not> is_space c) \<or> (\<forall>c \<in> set p. is_space c)"

section \<open>The network and the HTML parser\<close>

text \<open>
  What the script reads from outside is a parameter of the model, a \<open>world\<close>:
  \<^item> \<open>http_get URL\<close> is \<open>requests.get(URL).content\<close>, or the exception it raises;
  \<^item> \<open>http_length link\<close> is \<open>requests.get(link, stream=True).headers['Content-length']\<close>,
    or the exception (of the request, or the KeyError of a missing header);
  \<^item> \<open>int_of_str s\<close> is \<open>int(s)\<close> on such a header, ValueError when it is no number;
  \<^item> \<open>tableFile page\<close> is what BeautifulSoup finds in a detail page: \<open>None\<close> when no table
    of class tableFile is there, else the \<open>href\<close> of every anchor of the table that has one,
    in document order;
  \<^item> \<open>tableFile2 page\<close> is the same for an index page: the rows of the table of class
    tableFile2, each row the list of its \<open>td\<close> cells;
  \<^item> \<open>table_texts doc\<close> is what the recovering XML parser makes of a document: \<open>None\<close>
    when it gives no tree, else the joined text of every node whose tag is \<open>table\<close>, in
    document order.
  A world answers a request by its URL alone. The calls of \<open>requests.get\<close> are recorded
  in order: \<open>Get\<close> for a download, \<open>Probe\<close> for the request that only reads the
  Content-length header.
\<close>

datatype call = Get pystr | Probe pystr

datatype anchor = Anchor "pystr option"

record cell =
  cell_text :: pystr
  cell_anchor :: "anchor option"

type_synonym filing = "pystr \<times> pystr \<times> pystr"

record world =
  http_get :: "pystr \<Rightarrow> exn + bytes"
  http_length :: "pystr \<Rightarrow> exn + pystr"
  int_of_str :: "pystr \<Rightarrow> exn + int"
  tableFile :: "bytes \<Rightarrow> exn + pystr list option"
  tableFile2 :: "bytes \<Rightarrow> exn + cell list list option"
  table_texts :: "bytes \<Rightarrow> exn + pystr list option"

definition sec_gov :: pystr where
  "sec_gov = py ''https://www.sec.gov/''"

text \<open>
  \<open>make_request\<close>, lines 200 to 206. \<open>requests.get\<close> refuses a URL without a scheme before it
  sends anything (MissingSchema); the empty string is the one such URL the script can pass.
\<close>

definition make_request :: "world \<Rightarrow> pystr \<Rightarrow> exn + bytes" where
  "make_request w URL = (if URL = [] then Inl MissingSchema else http_get w URL)"

section \<open>The Best-Variant Selector: \<open>extract_data_from_text_files\<close>\<close>

text \<open>
  Lines 127 to 136: the loop over the hrefs. It stops at the first href that contains
  \<open>.xml\<close>; the hrefs with \<open>.txt\<close> met before are in \<open>inner_links\<close> already.
\<close>

fun links_loop :: "pystr list \<Rightarrow> pystr list \<Rightarrow> pystr list \<times> bool" where
  "links_loop [] inner_links = (inner_links, False)"
| "links_loop (each # rest) inner_links =
     (if py_in (py ''.xml'') each then (inner_links @ [sec_gov @ each], True)
      else if py_in (py ''.txt'') each then links_loop rest (inner_links @ [sec_gov @ each])
      else links_loop rest inner_links)"

text \<open>
  Lines 140 to 144, for one link: the header, or 0 when reading it raises, through \<open>int\<close>.
  The call of \<open>int\<close> is outside the \<open>try\<close>.
\<close>

definition content_length :: "world \<Rightarrow> pystr \<Rightarrow> exn + int" where
  "content_length w link =
     (case http_length w link of Inl e \<Rightarrow> Inr 0 | Inr header \<Rightarrow> int_of_str w header)"

text \<open>Lines 139 to 144: the loop over \<open>inner_links\<close>, with the calls made so far.\<close>

fun probe_loop ::
  "world \<Rightarrow> pystr list \<Rightarrow> (pystr \<times> int) list \<Rightarrow> call list
   \<Rightarrow> (exn + (pystr \<times> int) list) \<times> call list" where
  "probe_loop w [] inner_links_info calls = (Inr inner_links_info, calls)"
| "probe_loop w (link # rest) inner_links_info calls =
     (case content_length w link of
        Inl e \<Rightarrow> (Inl e, calls @ [Probe link])
      | Inr n \<Rightarrow> probe_loop w rest (inner_links_info @ [(link, n)]) (calls @ [Probe link]))"

text \<open>Lines 147 to 150: the loop that keeps the smallest length seen and its link.\<close>

fun smallest_loop :: "(pystr \<times> int) list \<Rightarrow> int \<Rightarrow> pystr \<Rightarrow> int \<times> pystr" where
  "smallest_loop [] smallest smallest_link = (smallest, smallest_link)"
| "smallest_loop (link_info # rest) smallest smallest_link =
     (if snd link_info < smallest then smallest_loop rest (snd link_info) (fst link_info)
      else smallest_loop rest smallest smallest_link)"

text \<open>
  Lines 104 to 164. The result is the value returned (\<open>None\<close> is the absence signal) or the
  exception that leaves the function, with the calls of \<open>requests.get\<close> in order.
\<close>

definition extract_data_from_text_files ::
  "world \<Rightarrow> pystr \<Rightarrow> (exn + bytes option) \<times> call list" where
  "extract_data_from_text_files w ticker_link =
     (case make_request w ticker_link of
        Inl e \<Rightarrow> (Inl e, [Get ticker_link])
      | Inr inner_page_data \<Rightarrow>
         (case tableFile w inner_page_data of
            Inl e \<Rightarrow> (Inl e, [Get ticker_link])
          | Inr None \<Rightarrow> (Inl AttributeError, [Get ticker_link])
          | Inr (Some inner_hrefs) \<Rightarrow>
             (case links_loop inner_hrefs [] of
                (inner_links, xml_found) \<Rightarrow>
                  if \<not> xml_found then
                    (case probe_loop w inner_links [] [Get ticker_link] of
                       (Inl e, calls) \<Rightarrow> (Inl e, calls)
                     | (Inr inner_links_info, calls) \<Rightarrow>
                        (case smallest_loop inner_links_info 1000000000000000000000000000 [] of
                           (smallest, smallest_link) \<Rightarrow>
                             (case make_request w smallest_link of
                                Inl e \<Rightarrow> (Inr None, calls @ [Get smallest_link])
                              | Inr text_data \<Rightarrow>
                                  (Inr (Some text_data), calls @ [Get smallest_link]))))
                  else
                    (case inner_links of
                       [] \<Rightarrow> (Inr None, [Get ticker_link])
                     | first_link # _ \<Rightarrow>
                        (case make_request w first_link of
                           Inl e \<Rightarrow> (Inr None, [Get ticker_link, Get first_link])
                         | Inr xml_data \<Rightarrow>
                             (Inr (Some xml_data), [Get ticker_link, Get first_link]))))))"

section \<open>The Filing Lister: \<open>get_soup_contents\<close>\<close>

text \<open>\<open>a_content['href']\<close> on the result of \<open>row[1].find('a')\<close>.\<close>

definition anchor_href :: "anchor option \<Rightarrow> exn + pystr" where
  "anchor_href a_content =
     (case a_content of
        None \<Rightarrow> Inl TypeError
      | Some (Anchor None) \<Rightarrow> Inl KeyError
      | Some (Anchor (Some href)) \<Rightarrow> Inr href)"

text \<open>Lines 186 to 195: the body of the \<open>try\<close>, for one row.\<close>

definition row_body :: "pystr \<Rightarrow> cell list \<Rightarrow> filing list \<Rightarrow> exn + filing list" where
  "row_body filter_text row table_content =
     (case py_index row 0 of
        Inl e \<Rightarrow> Inl e
      | Inr c0 \<Rightarrow>
         (let doc_title = py_strip (cell_text c0) in
          case py_index row 3 of
            Inl e \<Rightarrow> Inl e
          | Inr c3 \<Rightarrow>
             (let filing_date = py_strip (cell_text c3) in
              if py_in filter_text doc_title then
                (case py_index row 1 of
                   Inl e \<Rightarrow> Inl e
                 | Inr c1 \<Rightarrow>
                    (case anchor_href (cell_anchor c1) of
                       Inl e \<Rightarrow> Inl e
                     | Inr href \<Rightarrow>
                         Inr (table_content @ [(doc_title, sec_gov @ href, filing_date)])))
              else Inr table_content)))"

text \<open>Lines 184 to 197: the loop over the rows; an exception in the body skips the row.\<close>

fun rows_loop :: "pystr \<Rightarrow> cell list list \<Rightarrow> filing list \<Rightarrow> filing list" where
  "rows_loop filter_text [] table_content = table_content"
| "rows_loop filter_text (row # rest) table_content =
     rows_loop filter_text rest
       (case row_body filter_text row table_content of
          Inl e \<Rightarrow> table_content
        | Inr table_content' \<Rightarrow> table_content')"

text \<open>Lines 166 to 198. \<open>table.findAll\<close> on a missing table raises AttributeError.\<close>

definition get_soup_contents :: "world \<Rightarrow> bytes \<Rightarrow> pystr \<Rightarrow> exn + filing list" where
  "get_soup_contents w page_data filter_text =
     (case tableFile2 w page_data of
        Inl e \<Rightarrow> Inl e
      | Inr None \<Rightarrow> Inl AttributeError
      | Inr (Some rows) \<Rightarrow> Inr (rows_loop filter_text rows []))"

text \<open>What one row adds to an empty \<open>table_content\<close>: nothing, or one filing.\<close>

definition row_filings :: "pystr \<Rightarrow> cell list \<Rightarrow> filing list" where
  "row_filings filter_text row =
     (case row_body filter_text row [] of Inl e \<Rightarrow> [] | Inr fs \<Rightarrow> fs)"

text \<open>
  The filing of a parseable row, as the specification words it: the title is column 0,
  the filing date column 3, the link the anchor of column 1; a row that lacks one of
  them has none.
\<close>

definition spec_filing :: "cell list \<Rightarrow> filing option" where
  "spec_filing row =
     (if 4 \<le> length row then
        (case cell_anchor (row ! 1) of
           Some (Anchor (Some href)) \<Rightarrow>
             Some (py_strip (cell_text (row ! 0)), sec_gov @ href, py_strip (cell_text (row ! 3)))
         | _ \<Rightarrow> None)
      else None)"

section \<open>The Table Extractor and the Driver\<close>

text \<open>Lines 80 to 84 and 93 to 99: a line is kept when it contains none of the markers.\<close>

definition filter_vals :: "pystr list" where
  "filter_vals =
     [py ''S REPORT SUMMARY'', py ''FORM 13F INFORMATION TABLE'',
      py ''SHARES/ SH/ PUT/ INVSTMT'', py ''Total   ( '']"

definition filter_found :: "pystr \<Rightarrow> bool" where
  "filter_found line = list_ex (\<lambda>each. py_in each line) filter_vals"

text \<open>Lines 71 to 102.\<close>

definition extract_xml_content_from_text :: "world \<Rightarrow> bytes \<Rightarrow> exn + pystr option" where
  "extract_xml_content_from_text w text_data =
     (case table_texts w text_data of
        Inl e \<Rightarrow> Inl e
      | Inr None \<Rightarrow> Inr None
      | Inr (Some tables) \<Rightarrow>
          Inr (Some (py_join [NL]
            (concat (map (\<lambda>vals. filter (\<lambda>line. \<not> filter_found line) (py_split_on NL vals))
               tables)))))"

text \<open>Lines 208 to 214.\<close>

definition build_url :: "pystr \<Rightarrow> pystr" where
  "build_url ticker_id =
     py ''https://www.sec.gov/cgi-bin/browse-edgar?CIK='' @ ticker_id
       @ py ''&Find=Search&owner=exclude&action=getcompany''"

text \<open>
  What a run of \<open>main\<close> leaves behind: the files written, the names in \<open>results_files\<close>,
  and the calls of \<open>requests.get\<close>.
\<close>

record run =
  files :: "(pystr \<times> pystr) list"
  results_files :: "pystr list"
  requests :: "call list"

text \<open>
  Lines 231 to 248: the loop over the filings. No call in it stands in a \<open>try\<close>: the
  first component is the exception that ends the run, \<open>None\<close> when the loop ends.
\<close>

fun docs_loop ::
  "world \<Rightarrow> (pystr \<Rightarrow> bool) \<Rightarrow> pystr \<Rightarrow> filing list \<Rightarrow> run \<Rightarrow> exn option \<times> run" where
  "docs_loop w write_ok ticker_id [] r = (None, r)"
| "docs_loop w write_ok ticker_id (each # rest) r =
     (case each of (doc_title, doc_link, doc_filing_date) \<Rightarrow>
       (case extract_data_from_text_files w doc_link of
          (Inl e, cs) \<Rightarrow> (Some e, r\<lparr>requests := requests r @ cs\<rparr>)
        | (Inr None, cs) \<Rightarrow> docs_loop w write_ok ticker_id rest (r\<lparr>requests := requests r @ cs\<rparr>)
        | (Inr (Some text_data), cs) \<Rightarrow>
           (case extract_xml_content_from_text w text_data of
              Inl e \<Rightarrow> (Some e, r\<lparr>requests := requests r @ cs\<rparr>)
            | Inr None \<Rightarrow> docs_loop w write_ok ticker_id rest (r\<lparr>requests := requests r @ cs\<rparr>)
            | Inr (Some xml_data) \<Rightarrow>
               (let filename =
                      map (\<lambda>c. if c = of_char CHR ''/'' then of_char CHR ''-'' else c)
                        (ticker_id @ py ''_'' @ doc_title @ py ''_'' @ doc_filing_date
                           @ py ''_results'')
                in case convert_to_tsv write_ok filename xml_data of
                     Inl e \<Rightarrow> (Some e, r\<lparr>requests := requests r @ cs\<rparr>)
                   | Inr written \<Rightarrow>
                       docs_loop w write_ok ticker_id rest
                         (r\<lparr>files := files r @ [written],
                            results_files := results_files r @ [filename @ py ''.tsv''],
                            requests := requests r @ cs\<rparr>)))))"

text \<open>Lines 217 to 249.\<close>

definition main :: "world \<Rightarrow> (pystr \<Rightarrow> bool) \<Rightarrow> pystr \<Rightarrow> pystr \<Rightarrow> exn option \<times> run" where
  "main w write_ok ticker_id filter_text =
     (let url = build_url ticker_id;
          r = \<lparr>files = [], results_files = [], requests = [Get url]\<rparr>
      in case make_request w url of
           Inl e \<Rightarrow> (Some e, r)
         | Inr page_data \<Rightarrow>
            (case get_soup_contents w page_data filter_text of
               Inl e \<Rightarrow> (Some e, r)
             | Inr docs_contents \<Rightarrow> docs_loop w write_ok ticker_id docs_contents r))"

section \<open>Worlds for the concrete runs\<close>


text \<open>A detail page that lists a text file before an XML file.\<close>

definition txt_before_xml_world :: world where
  "txt_before_xml_world =
     \<lparr> http_get = (\<lambda>URL. if URL = sec_gov @ py ''/a.txt'' then Inr (py ''TXT'')
                        else if URL = sec_gov @ py ''/b.xml'' then Inr (py ''XML'')
                        else Inr (py ''PAGE'')),
       http_length = (\<lambda>link. Inr (py ''500'')),
       int_of_str = (\<lambda>s. if s = py ''500'' then Inr 500 else Inl ValueError),
       tableFile = (\<lambda>page. Inr (Some [py ''/a.txt'', py ''/b.xml''])),
       tableFile2 = (\<lambda>page. Inr None),
       table_texts = (\<lambda>doc. Inr None) \<rparr>"

text \<open>No connection: every request raises.\<close>

definition offline_world :: world where
  "offline_world =
     \<lparr> http_get = (\<lambda>URL. Inl ConnectionError),
       http_length = (\<lambda>link. Inl ConnectionError),
       int_of_str = (\<lambda>s. Inl ValueError),
       tableFile = (\<lambda>page. Inr None),
       tableFile2 = (\<lambda>page. Inr None),
       table_texts = (\<lambda>doc. Inr None) \<rparr>"

text \<open>Every page is served, and none has a table of class tableFile or tableFile2.\<close>

definition no_table_world :: world where
  "no_table_world =
     \<lparr> http_get = (\<lambda>URL. Inr (py ''PAGE'')),
       http_length = (\<lambda>link. Inl KeyError),
       int_of_str = (\<lambda>s. Inl ValueError),
       tableFile = (\<lambda>page. Inr None),
       tableFile2 = (\<lambda>page. Inr None),
       table_texts = (\<lambda>doc. Inr None) \<rparr>"

text \<open>A detail page whose table links one document, neither \<open>.xml\<close> nor \<open>.txt\<close>.\<close>

definition no_docs_world :: world where
  "no_docs_world =
     \<lparr> http_get = (\<lambda>URL. Inr (py ''PAGE'')),
       http_length = (\<lambda>link. Inl KeyError),
       int_of_str = (\<lambda>s. Inl ValueError),
       tableFile = (\<lambda>page. Inr (Some [py ''/x.htm''])),
       tableFile2 = (\<lambda>page. Inr None),
       table_texts = (\<lambda>doc. Inr None) \<rparr>"

text \<open>
  An index page of five rows: a header row without \<open>td\<close> cells, a 13F-HR filing, a 10-K
  filing, a row of three cells, and a row whose second cell has no anchor.
\<close>

definition index_rows :: "cell list list" where
  "index_rows =
     [ [],
       [ \<lparr>cell_text = py '' 13F-HR '', cell_anchor = None\<rparr>,
         \<lparr>cell_text = py ''Documents'', cell_anchor = Some (Anchor (Some (py ''/A/1'')))\<rparr>,
         \<lparr>cell_text = py ''Quarterly'', cell_anchor = None\<rparr>,
         \<lparr>cell_text = py ''2019-02-14'', cell_anchor = None\<rparr> ],
       [ \<lparr>cell_text = py ''10-K'', cell_anchor = None\<rparr>,
         \<lparr>cell_text = py ''Documents'', cell_anchor = Some (Anchor (Some (py ''/A/2'')))\<rparr>,
         \<lparr>cell_text = py ''Annual'', cell_anchor = None\<rparr>,
         \<lparr>cell_text = py ''2019-03-01'', cell_anchor = None\<rparr> ],
       [ \<lparr>cell_text = py ''13F-HR'', cell_anchor = None\<rparr>,
         \<lparr>cell_text = py ''Documents'', cell_anchor = Some (Anchor (Some (py ''/A/3'')))\<rparr>,
         \<lparr>cell_text = py ''Quarterly'', cell_anchor = None\<rparr> ],
       [ \<lparr>cell_text = py ''13F-HR'', cell_anchor = None\<rparr>,
         \<lparr>cell_text = py ''Documents'', cell_anchor = None\<rparr>,
         \<lparr>cell_text = py ''Quarterly'', cell_anchor = None\<rparr>,
         \<lparr>cell_text = py ''2018-11-14'', cell_anchor = None\<rparr> ] ]"

definition index_world :: world where
  "index_world =
     \<lparr> http_get = (\<lambda>URL. Inr (py ''INDEX'')),
       http_length = (\<lambda>link. Inl KeyError),
       int_of_str = (\<lambda>s. Inl ValueError),
       tableFile = (\<lambda>page. Inr None),
       tableFile2 = (\<lambda>page. Inr (Some index_rows)),
       table_texts = (\<lambda>doc. Inr None) \<rparr>"

text \<open>A detail page with one text file whose Content-length header is no number.\<close>

definition bad_header_world :: world where
  "bad_header_world =
     \<lparr> http_get = (\<lambda>URL. Inr (py ''PAGE'')),
       http_length = (\<lambda>link. Inr (py ''chunked'')),
       int_of_str = (\<lambda>s. if s = py ''500'' then Inr 500 else Inl ValueError),
       tableFile = (\<lambda>page. Inr (Some [py ''/a.txt''])),
       tableFile2 = (\<lambda>page. Inr None),
       table_texts = (\<lambda>doc. Inr None) \<rparr>"

text \<open>
  The index page of ticker \<open>1\<close> is served and lists the rows of \<open>index_rows\<close>; every other
  request raises.
\<close>

definition details_down_world :: world where
  "details_down_world =
     \<lparr> http_get = (\<lambda>URL. if URL = build_url (py ''1'') then Inr (py ''INDEX'')
                        else Inl ConnectionError),
       http_length = (\<lambda>link. Inl ConnectionError),
       int_of_str = (\<lambda>s. Inl ValueError),
       tableFile = (\<lambda>page. Inr None),
       tableFile2 = (\<lambda>page. Inr (Some index_rows)),
       table_texts = (\<lambda>doc. Inr None) \<rparr>"


section \<open>Properties of the library calls\<close>

lemma py_remove_member: "x \<in> set xs \<Longrightarrow> py_remove x xs = Inr (remove1 x xs)"
  by (induction xs) auto

lemma remove_name_tokens_spec:
  "remove_name_tokens ns ts = Inr (foldl spec_step ts ns)"
proof (induction ns arbitrary: ts)
  case Nil
  show ?case by simp
next
  case (Cons n ns)
  show ?case
  proof (cases "n \<in> set (take 6 ts)")
    case True
    then have "n \<in> set ts" by (rule in_set_takeD)
    then have "py_remove n ts = Inr (remove1 n ts)" by (rule py_remove_member)
    with True Cons show ?thesis by (simp add: spec_step_def)
  next
    case False
    with Cons show ?thesis by (simp add: spec_step_def)
  qed
qed

lemma subseq_remove1: "subseq (remove1 x xs) xs"
  by (induction xs) auto

lemma subseq_spec_step: "subseq (spec_step ts n) ts"
  by (simp add: spec_step_def subseq_remove1)

lemma subseq_foldl_spec_step: "subseq (foldl spec_step ts ns) ts"
proof (induction ns arbitrary: ts)
  case Nil
  show ?case by simp
next
  case (Cons n ns)
  have "subseq (foldl spec_step (spec_step ts n) ns) (spec_step ts n)" by (rule Cons)
  then show ?case using subseq_spec_step [of ts n] by (auto intro: subseq_order.trans)
qed

lemma res_line_tokens_spec: "res_line_tokens line = Inr (spec_record line)"
  by (simp add: res_line_tokens_def spec_record_def name_tokens_def Let_def
      remove_name_tokens_spec)

section \<open>Properties of the tokenizers\<close>

lemma ws_split_space_cut:
  "is_space c \<Longrightarrow> ws_split cur (a @ c # b) = ws_split cur a @ ws_split [] b"
  by (induction a arbitrary: cur) auto

lemma py_split_space_cut:
  "is_space c \<Longrightarrow> py_split (a @ c # b) = py_split a @ py_split b"
  by (simp add: py_split_def ws_split_space_cut)

lemma py_split_Nil [simp]: "py_split [] = []"
  by (simp add: py_split_def)

lemma py_split_sep_split:
  "is_space sep \<Longrightarrow> concat (map py_split (sep_split sep cur s)) = py_split (cur @ s)"
  by (induction s arbitrary: cur) (auto simp: py_split_space_cut)

lemma py_split_pieces:
  "is_space sep \<Longrightarrow> concat (map py_split (py_split_on sep s)) = py_split s"
  by (simp add: py_split_on_def py_split_sep_split)

lemma py_split_join:
  "is_space sep \<Longrightarrow> py_split (py_join [sep] xs) = concat (map py_split xs)"
  by (induction "[sep]" xs rule: py_join.induct) (auto simp: py_split_space_cut)

lemma ws_split_tokens:
  "(\<forall>c \<in> set cur. \<not> is_space c) \<Longrightarrow> \<forall>t \<in> set (ws_split cur s). is_token t"
proof (induction s arbitrary: cur)
  case Nil
  then show ?case by (simp add: is_token_def)
next
  case (Cons a s)
  have rest: "\<forall>t \<in> set (ws_split [] s). is_token t"
    using Cons.IH [of "[]"] by simp
  show ?case
  proof (cases "is_space a")
    case True
    have "cur \<noteq> [] \<Longrightarrow> is_token cur"
      using Cons.prems by (simp add: is_token_def)
    with True rest show ?thesis by simp
  next
    case False
    with Cons.prems have "\<forall>c \<in> set (cur @ [a]). \<not> is_space c" by simp
    then have "\<forall>t \<in> set (ws_split (cur @ [a]) s). is_token t" by (rule Cons.IH)
    with False show ?thesis by simp
  qed
qed

lemma py_split_tokens: "t \<in> set (py_split s) \<Longrightarrow> is_token t"
  using ws_split_tokens [of "[]" s] by (simp add: py_split_def)

lemma ws_split_no_space:
  "(\<forall>c \<in> set t. \<not> is_space c) \<Longrightarrow> ws_split cur t = (if cur @ t = [] then [] else [cur @ t])"
  by (induction t arbitrary: cur) auto

lemma py_split_token: "is_token t \<Longrightarrow> py_split t = [t]"
  by (simp add: py_split_def is_token_def ws_split_no_space)

lemma ws_split_all_space:
  "(\<forall>c \<in> set s. is_space c) \<Longrightarrow> ws_split cur s = (if cur = [] then [] else [cur])"
  by (induction s arbitrary: cur) auto

lemma py_split_all_space: "(\<forall>c \<in> set s. is_space c) \<Longrightarrow> py_split s = []"
  by (simp add: py_split_def ws_split_all_space)

lemma concat_map_py_split_filter:
  "concat (map py_split (filter (\<lambda>t. t \<noteq> []) xs)) = concat (map py_split xs)"
  by (induction xs) auto

lemma concat_map_py_split_tokens:
  "(\<forall>t \<in> set ts. is_token t) \<Longrightarrow> concat (map py_split ts) = ts"
  by (induction ts) (auto simp: py_split_token)

section \<open>Properties of the Record Normalizer and the Writer\<close>

lemma strip_names:
  assumes "\<forall>p \<in> set ns. p \<noteq> [] \<and> unmixed p" and "\<forall>t \<in> set rest. is_token t"
  shows "foldl spec_step (concat (map py_split ns) @ rest) ns = rest"
  using assms
proof (induction ns)
  case Nil
  show ?case by simp
next
  case (Cons p ps)
  have ih: "foldl spec_step (concat (map py_split ps) @ rest) ps = rest"
    using Cons by simp
  have p: "p \<noteq> []" "unmixed p" using Cons.prems by simp_all
  let ?ts = "concat (map py_split ps) @ rest"
  have toks: "\<forall>t \<in> set ?ts. is_token t"
    using Cons.prems(2) by (auto dest: py_split_tokens)
  show ?case
  proof (cases "\<forall>c \<in> set p. \<not> is_space c")
    case True
    with p have "is_token p" by (simp add: is_token_def)
    then have "py_split p = [p]" by (rule py_split_token)
    then have "spec_step (concat (map py_split (p # ps)) @ rest) p = ?ts"
      by (simp add: spec_step_def)
    with ih show ?thesis by simp
  next
    case False
    with p have all: "\<forall>c \<in> set p. is_space c" by (auto simp: unmixed_def)
    then have split: "py_split p = []" by (rule py_split_all_space)
    from all p have "\<not> is_token p" by (cases p) (auto simp: is_token_def)
    with toks have "p \<notin> set ?ts" by blast
    then have "p \<notin> set (take 6 ?ts)" by (blast dest: in_set_takeD)
    with split have "spec_step (concat (map py_split (p # ps)) @ rest) p = ?ts"
      by (simp add: spec_step_def)
    with ih show ?thesis by simp
  qed
qed

lemma name_tokens_split:
  "concat (map py_split (name_tokens line)) = concat (map py_split (take 6 (py_split_on SP line)))"
  by (simp add: name_tokens_def concat_map_py_split_filter)

lemma is_space_SP [simp]: "is_space SP" by (simp add: is_space_def)
lemma is_space_TAB [simp]: "is_space TAB" by (simp add: is_space_def)
lemma is_space_NL [simp]: "is_space NL" by (simp add: is_space_def)

lemma py_split_take_drop:
  "py_split line = concat (map py_split (take 6 (py_split_on SP line)))
                   @ concat (map py_split (drop 6 (py_split_on SP line)))"
proof -
  have "py_split line = concat (map py_split (py_split_on SP line))"
    by (simp add: py_split_pieces)
  also have "\<dots> = concat (map py_split (take 6 (py_split_on SP line) @ drop 6 (py_split_on SP line)))"
    by simp
  finally show ?thesis by (simp del: append_take_drop_id)
qed

lemma spec_record_unmixed:
  assumes "\<forall>p \<in> set (name_tokens line). unmixed p"
  shows "spec_record line =
           py_join [SP] (name_tokens line) # concat (map py_split (drop 6 (py_split_on SP line)))"
proof -
  let ?rest = "concat (map py_split (drop 6 (py_split_on SP line)))"
  have ne: "\<forall>p \<in> set (name_tokens line). p \<noteq> [] \<and> unmixed p"
    using assms by (simp add: name_tokens_def)
  have toks: "\<forall>t \<in> set ?rest. is_token t" by (auto dest: py_split_tokens)
  have "py_split line = concat (map py_split (name_tokens line)) @ ?rest"
    using py_split_take_drop [of line] by (simp add: name_tokens_split)
  then have "foldl spec_step (py_split line) (name_tokens line) = ?rest"
    using strip_names [OF ne toks] by simp
  then show ?thesis by (simp add: spec_record_def name_tokens_def Let_def)
qed

lemma resplit_unmixed:
  assumes "\<forall>p \<in> set (name_tokens line). unmixed p"
  shows "py_split (py_join [TAB] (spec_record line)) = py_split line"
proof -
  let ?rest = "concat (map py_split (drop 6 (py_split_on SP line)))"
  have toks: "\<forall>t \<in> set ?rest. is_token t" by (auto dest: py_split_tokens)
  have "py_split (py_join [TAB] (spec_record line))
        = concat (map py_split (py_join [SP] (name_tokens line) # ?rest))"
    by (simp only: spec_record_unmixed [OF assms] py_split_join [OF is_space_TAB])
  also have "\<dots> = py_split (py_join [SP] (name_tokens line)) @ concat (map py_split ?rest)"
    by simp
  also have "\<dots> = concat (map py_split (name_tokens line)) @ ?rest"
    by (simp only: py_split_join [OF is_space_SP] concat_map_py_split_tokens [OF toks])
  also have "\<dots> = py_split line"
    using py_split_take_drop [of line] by (simp add: name_tokens_split)
  finally show ?thesis .
qed

lemma lines_loop_spec: "lines_loop ls acc = Inr (acc @ map spec_record ls)"
  by (induction ls arbitrary: acc) (simp_all add: res_line_tokens_spec)

lemma sep_split_chars:
  "\<forall>p \<in> set (sep_split sep cur s). set p \<subseteq> set cur \<union> set s"
proof (induction s arbitrary: cur)
  case Nil
  show ?case by simp
next
  case (Cons c cs)
  show ?case
  proof (cases "c = sep")
    case True
    with Cons [of "[]"] show ?thesis by auto
  next
    case False
    with Cons [of "cur @ [c]"] show ?thesis by auto
  qed
qed

lemma sep_split_no_sep:
  "sep \<notin> set cur \<Longrightarrow> \<forall>p \<in> set (sep_split sep cur s). sep \<notin> set p"
proof (induction s arbitrary: cur)
  case Nil
  then show ?case by simp
next
  case (Cons c cs)
  show ?case
  proof (cases "c = sep")
    case True
    with Cons.IH [of "[]"] Cons.prems show ?thesis by simp
  next
    case False
    with Cons.IH [of "cur @ [c]"] Cons.prems show ?thesis by simp
  qed
qed

lemma py_split_on_no_sep: "p \<in> set (py_split_on sep s) \<Longrightarrow> sep \<notin> set p"
  using sep_split_no_sep [of sep "[]" s] by (simp add: py_split_on_def)

lemma py_split_on_chars: "p \<in> set (py_split_on sep s) \<Longrightarrow> set p \<subseteq> set s"
  using sep_split_chars [of sep "[]" s] by (simp add: py_split_on_def)

lemma py_join_chars:
  "c \<notin> set sep \<Longrightarrow> \<forall>x \<in> set xs. c \<notin> set x \<Longrightarrow> c \<notin> set (py_join sep xs)"
  by (induction sep xs rule: py_join.induct) auto

lemma token_no_NL: "is_token t \<Longrightarrow> NL \<notin> set t"
  by (auto simp: is_token_def)

lemma set_spec_step: "set (spec_step ts n) \<subseteq> set ts"
  using set_remove1_subset [of n ts] by (simp add: spec_step_def)

lemma set_foldl_spec_step: "set (foldl spec_step ts ns) \<subseteq> set ts"
proof (induction ns arbitrary: ts)
  case Nil
  show ?case by simp
next
  case (Cons n ns)
  have "set (foldl spec_step (spec_step ts n) ns) \<subseteq> set (spec_step ts n)" by (rule Cons)
  with set_spec_step [of ts n] show ?case by auto
qed

lemma spec_record_fields:
  "set (spec_record line) \<subseteq> insert (py_join [SP] (name_tokens line)) (set (py_split line))"
  using set_foldl_spec_step [of "py_split line" "name_tokens line"]
  by (auto simp: spec_record_def name_tokens_def Let_def)

lemma spec_record_no_NL:
  assumes "NL \<notin> set line"
  shows "\<forall>f \<in> set (spec_record line). NL \<notin> set f"
proof -
  have "\<forall>p \<in> set (name_tokens line). NL \<notin> set p"
    using assms by (auto simp: name_tokens_def dest!: in_set_takeD py_split_on_chars)
  then have name: "NL \<notin> set (py_join [SP] (name_tokens line))"
    by (intro py_join_chars) simp_all
  have "\<forall>t \<in> set (py_split line). NL \<notin> set t"
    by (auto dest!: py_split_tokens token_no_NL)
  with name spec_record_fields [of line] show ?thesis by auto
qed

lemma res_lines_of_spec: "res_lines_of text = Inr (map spec_record (text_lines text))"
  by (simp add: res_lines_of_def lines_loop_spec)

lemma text_lines_no_NL: "line \<in> set (text_lines text) \<Longrightarrow> NL \<notin> set line"
  by (auto simp: text_lines_def dest: py_split_on_no_sep)

lemma written_line_no_NL:
  assumes "line \<in> set (text_lines text)"
  shows "NL \<notin> set (py_join [TAB] (spec_record line))"
proof -
  have "NL \<notin> set line" using assms by (rule text_lines_no_NL)
  then have "\<forall>f \<in> set (spec_record line). NL \<notin> set f" by (rule spec_record_no_NL)
  then show ?thesis by (intro py_join_chars) simp_all
qed

lemma write_loop_all_ok:
  "\<forall>chunk. write_ok chunk \<Longrightarrow>
   write_loop write_ok rs out = out @ concat (map (\<lambda>r. py_join [TAB] r @ [NL]) rs)"
  by (induction rs arbitrary: out) (simp_all add: Let_def)

lemma count_NL_lines:
  "\<forall>l \<in> set ls. NL \<notin> set l \<Longrightarrow>
   length (filter (\<lambda>c. c = NL) (concat (map (\<lambda>l. l @ [NL]) ls))) = length ls"
  by (induction ls) (auto simp: filter_empty_conv)

lemma sep_split_all_sep:
  "set s \<subseteq> {sep} \<Longrightarrow> sep_split sep cur s = cur # replicate (length s) []"
  by (induction s arbitrary: cur) auto

lemma spec_record_blank:
  assumes "set line \<subseteq> {SP}"
  shows "spec_record line = [[]]"
proof -
  have "py_split_on SP line = replicate (Suc (length line)) []"
    using assms by (simp add: py_split_on_def sep_split_all_sep)
  then have "filter (\<lambda>t. t \<noteq> []) (take 6 (py_split_on SP line)) = []"
    by (auto simp: filter_empty_conv dest: in_set_takeD)
  moreover have "py_split line = []"
    using assms by (intro py_split_all_space) auto
  ultimately show ?thesis by (simp add: spec_record_def Let_def)
qed

section \<open>Properties of the Best-Variant Selector\<close>

lemma links_loop_no_xml:
  "\<forall>h \<in> set hrefs. \<not> py_in (py ''.xml'') h \<Longrightarrow>
   links_loop hrefs acc = (acc @ map ((@) sec_gov) (filter (py_in (py ''.txt'')) hrefs), False)"
  by (induction hrefs arbitrary: acc) simp_all




section \<open>Properties of the Filing Lister\<close>

lemma py_in_empty: "py_in [] s"
  by (cases s) simp_all

lemma row_body_acc:
  "row_body f row tc =
     (case row_body f row [] of Inl e \<Rightarrow> Inl e | Inr fs \<Rightarrow> Inr (tc @ fs))"
  by (simp add: row_body_def Let_def split: sum.splits)

lemma rows_loop_concat:
  "rows_loop f rows tc = tc @ concat (map (row_filings f) rows)"
proof (induction rows arbitrary: tc)
  case Nil
  show ?case by simp
next
  case (Cons row rows)
  have "(case row_body f row tc of Inl e \<Rightarrow> tc | Inr tc' \<Rightarrow> tc') = tc @ row_filings f row"
    by (subst row_body_acc) (simp add: row_filings_def split: sum.splits)
  then show ?case by (simp add: Cons)
qed

lemma row_filings_spec:
  "row_filings f row =
     (case spec_filing row of
        None \<Rightarrow> []
      | Some r \<Rightarrow> if py_in f (fst r) then [r] else [])"
  by (simp add: row_filings_def row_body_def spec_filing_def py_index_def anchor_href_def
      Let_def split: option.splits anchor.splits)

lemma row_filings_all: "row_filings [] row = (case spec_filing row of None \<Rightarrow> [] | Some r \<Rightarrow> [r])"
  by (simp add: row_filings_spec py_in_empty split: option.splits)

lemma row_filings_filter:
  "row_filings f row = filter (\<lambda>r. py_in f (fst r)) (row_filings [] row)"
  by (simp add: row_filings_spec py_in_empty split: option.splits)

lemma length_row_filings: "length (row_filings f row) \<le> 1"
  by (simp add: row_filings_spec split: option.splits)

lemma row_filings_short: "length row < 4 \<Longrightarrow> row_filings f row = []"
  by (simp add: row_filings_spec spec_filing_def)

lemma length_concat_le:
  "\<forall>x \<in> set xs. length (g x) \<le> 1 \<Longrightarrow> length (concat (map g xs)) \<le> length xs"
  by (induction xs) (simp_all add: le_Suc_eq, force)

lemma concat_row_filings_filter:
  "concat (map (row_filings f) rows)
     = filter (\<lambda>r. py_in f (fst r)) (concat (map (row_filings []) rows))"
  by (induction rows) (simp_all add: row_filings_filter [symmetric])

lemma concat_row_filings_all:
  "concat (map (row_filings []) rows) = List.map_filter spec_filing rows"
  by (induction rows) (simp_all add: row_filings_all split: option.splits)

section \<open>Evaluating the text functions on concrete lines\<close>

lemmas text_eval = py_def py_split_def py_split_on_def is_space_def spec_step_def
  spec_record_def name_tokens_def res_line_tokens_def text_lines_def py_strip_def
  res_lines_of_def convert_to_tsv_def Let_def

section \<open>Evaluating the selector and the lister in a concrete world\<close>

lemmas web_eval = py_def sec_gov_def make_request_def content_length_def
  extract_data_from_text_files_def

lemmas lister_eval = py_def sec_gov_def get_soup_contents_def row_body_def py_index_def
  anchor_href_def py_strip_def is_space_def index_world_def index_rows_def Let_def

section \<open>The claims about the Record Normalizer and the Writer\<close>

text \<open>
  C1. For every line the Record Normalizer does what the per-line algorithm of the
  specification says: the record is the name (the non-empty ones of the first six
  single-space pieces, joined by single spaces) followed by the whitespace tokens that
  survive step 4, and the survivors keep their original order. No line makes the loop
  raise.
\<close>

theorem C1_normalizer_follows_spec:
  "res_line_tokens line = Inr (spec_record line)
   \<and> hd (spec_record line) = py_join [SP] (name_tokens line)
   \<and> subseq (tl (spec_record line)) (py_split line)"
  by (simp add: res_line_tokens_spec)
    (simp add: spec_record_def name_tokens_def Let_def subseq_foldl_spec_step)

theorem C1_normalizer_follows_spec_witness:
  "res_line_tokens (py ''AB  CD 12'') = Inr (spec_record (py ''AB  CD 12''))
   \<and> spec_record (py ''AB  CD 12'') = [py ''AB CD 12'']"
  using C1_normalizer_follows_spec [of "py ''AB  CD 12''"]
  by (simp add: text_eval)

text \<open>
  C5, as amended. For every line whose name tokens are each free of whitespace or
  whitespace throughout, splitting the tab-joined record at whitespace gives back the
  whitespace tokens of the line, in order, hence the same multiset.
\<close>

theorem C5_resplit_tokens:
  assumes "\<forall>p \<in> set (name_tokens line). unmixed p"
  shows "\<exists>r. res_line_tokens line = Inr r
             \<and> py_split (py_join [TAB] r) = py_split line
             \<and> mset (py_split (py_join [TAB] r)) = mset (py_split line)"
  using resplit_unmixed [OF assms] by (simp add: res_line_tokens_spec)

theorem C5_resplit_tokens_witness:
  "name_tokens (py ''AB  CD 12 x y z 7 8'')
     = [py ''AB'', py ''CD'', py ''12'', py ''x'', py ''y'']
   \<and> (\<exists>r. res_line_tokens (py ''AB  CD 12 x y z 7 8'') = Inr r
         \<and> py_split (py_join [TAB] r) = py_split (py ''AB  CD 12 x y z 7 8'')
         \<and> mset (py_split (py_join [TAB] r)) = mset (py_split (py ''AB  CD 12 x y z 7 8'')))"
  using C5_resplit_tokens [of "py ''AB  CD 12 x y z 7 8''"]
  by (simp add: name_tokens_def py_def py_split_on_def unmixed_def is_space_def)

text \<open>
  C5 as stated fails on the line \<open>A<TAB>B C\<close>, whose tokens \<open>A\<close>, \<open>B\<close>, \<open>C\<close> are distinct:
  the name token \<open>A<TAB>B\<close> is no whitespace token, so \<open>A\<close> and \<open>B\<close> stay in the record
  and come twice out of the re-split.
\<close>

theorem C5_counterexample:
  "res_line_tokens [65, TAB, 66, SP, 67] = Inr [[65, TAB, 66, SP, 67], [65], [66]]
   \<and> py_split [65, TAB, 66, SP, 67] = [[65], [66], [67]]
   \<and> py_split (py_join [TAB] [[65, TAB, 66, SP, 67], [65], [66]])
       = [[65], [66], [67], [65], [66]]
   \<and> mset (py_split (py_join [TAB] [[65, TAB, 66, SP, 67], [65], [66]]))
       \<noteq> mset (py_split [65, TAB, 66, SP, 67])"
  by (simp add: text_eval)

text \<open>
  C7. When no write fails, the file \<open>convert_to_tsv\<close> writes is the records' tab-joined
  lines, each closed by one newline: one line a record, no line with a newline inside,
  and as many newline characters in the file as records.
\<close>

theorem C7_writer_lines:
  assumes "\<forall>chunk. write_ok chunk"
  shows "\<exists>rs. res_lines_of text = Inr rs
     \<and> convert_to_tsv write_ok filename text =
         Inr (py ''results/'' @ filename @ py ''.tsv'',
              concat (map (\<lambda>l. l @ [NL]) (map (py_join [TAB]) rs)))
     \<and> length (map (py_join [TAB]) rs) = length rs
     \<and> (\<forall>l \<in> set (map (py_join [TAB]) rs). NL \<notin> set l)
     \<and> length (filter (\<lambda>c. c = NL) (concat (map (\<lambda>l. l @ [NL]) (map (py_join [TAB]) rs))))
         = length rs"
proof -
  let ?rs = "map spec_record (text_lines text)"
  let ?ls = "map (py_join [TAB]) ?rs"
  have rs: "res_lines_of text = Inr ?rs" by (rule res_lines_of_spec)
  have noNL: "\<forall>l \<in> set ?ls. NL \<notin> set l" by (auto dest: written_line_no_NL)
  have "write_loop write_ok ?rs [] = concat (map (\<lambda>l. l @ [NL]) ?ls)"
    using write_loop_all_ok [OF assms, of ?rs "[]"] by (simp add: comp_def)
  then have conv: "convert_to_tsv write_ok filename text =
      Inr (py ''results/'' @ filename @ py ''.tsv'', concat (map (\<lambda>l. l @ [NL]) ?ls))"
    by (simp add: convert_to_tsv_def rs)
  have len: "length ?ls = length ?rs" by (rule length_map)
  have "length (filter (\<lambda>c. c = NL) (concat (map (\<lambda>l. l @ [NL]) ?ls))) = length ?ls"
    using noNL by (rule count_NL_lines)
  then have cnt:
    "length (filter (\<lambda>c. c = NL) (concat (map (\<lambda>l. l @ [NL]) ?ls))) = length ?rs"
    by (simp only: len)
  show ?thesis
    by (rule exI [of _ ?rs]) (intro conjI rs conv len noNL cnt)
qed

theorem C7_writer_lines_witness:
  "convert_to_tsv (\<lambda>chunk. True) (py ''f'') (py ''A B C D E F 7 8'' @ [NL] @ py ''G  1'')
     = Inr (py ''results/f.tsv'',
            py ''A B C D E F'' @ [TAB] @ py ''7'' @ [TAB] @ py ''8'' @ [NL] @ py ''G 1'' @ [NL])"
  using C7_writer_lines
    [of "\<lambda>chunk. True" "py ''A B C D E F 7 8'' @ [NL] @ py ''G  1''" "py ''f''"]
  by (simp add: text_eval)

text \<open>
  C8, as amended. The Record Normalizer emits one record for each line of the text
  block after whitespace is stripped from both ends of the block (line 31), in order,
  and every such line that is empty or made of spaces only gives the record whose one
  field is the empty name.
\<close>

theorem C8_one_record_per_line:
  "\<exists>rs. res_lines_of text = Inr rs
     \<and> length rs = length (text_lines text)
     \<and> (\<forall>i < length rs. res_line_tokens (text_lines text ! i) = Inr (rs ! i))
     \<and> (\<forall>i < length rs. set (text_lines text ! i) \<subseteq> {SP} \<longrightarrow> rs ! i = [[]])"
  by (simp add: res_lines_of_spec res_line_tokens_spec spec_record_blank)

theorem C8_one_record_per_line_witness:
  "text_lines [NL, 65, NL, SP, NL, 66, NL] = [[65], [SP], [66]]
   \<and> res_lines_of [NL, 65, NL, SP, NL, 66, NL] = Inr [[[65]], [[]], [[66]]]"
  using C8_one_record_per_line [of "[NL, 65, NL, SP, NL, 66, NL]"]
  by (simp add: text_eval)

text \<open>
  C8 as stated fails on the block of four lines \<open><NL>A<NL><TAB><NL>B\<close>: the blank first
  line gets no record (three records come out), and the blank third line, a tab, gets
  a record whose name is the tab, not the empty string.
\<close>

theorem C8_counterexample:
  "py_split_on NL [NL, 65, NL, TAB, NL, 66] = [[], [65], [TAB], [66]]
   \<and> res_lines_of [NL, 65, NL, TAB, NL, 66] = Inr [[[65]], [[TAB]], [[66]]]
   \<and> length [[[65]], [[TAB]], [[66::nat]]] \<noteq> length (py_split_on NL [NL, 65, NL, TAB, NL, 66])
   \<and> is_space TAB
   \<and> res_line_tokens [TAB] = Inr [[TAB]]"
  by (simp add: text_eval)

text \<open>
  C9. There is a line with a tab among its first six single-space pieces whose record
  has a tab in its name, so that the tab-joined line splits at tabs into more columns
  than the record has fields.
\<close>

theorem C9_tab_in_name:
  "\<exists>line. TAB \<in> set (concat (take 6 (py_split_on SP line)))
     \<and> (\<exists>r. res_line_tokens line = Inr r \<and> TAB \<in> set (hd r)
            \<and> length r < length (py_split_on TAB (py_join [TAB] r)))"
  by (rule exI [of _ "[65, TAB, 66, SP, 67]"]) (simp add: text_eval)

section \<open>The claims about the Best-Variant Selector and the Filing Lister\<close>

text \<open>
  C2. The claim: when a candidate link has the \<open>.xml\<close> extension, the content of the first
  such link is fetched and returned, with no content-length comparison. The code fetches
  \<open>inner_links[0]\<close>, which is a \<open>.txt\<close> link when one stands before the first \<open>.xml\<close> link
  in the table: on a page that lists \<open>/a.txt\<close> and then \<open>/b.xml\<close> the text file is
  downloaded and returned, and the XML file is never requested.
\<close>

theorem C2_text_file_before_xml:
  "links_loop [py ''/a.txt'', py ''/b.xml''] []
     = ([py ''https://www.sec.gov//a.txt'', py ''https://www.sec.gov//b.xml''], True)
   \<and> extract_data_from_text_files txt_before_xml_world (py ''https://www.sec.gov/d'')
     = (Inr (Some (py ''TXT'')),
        [Get (py ''https://www.sec.gov/d''), Get (py ''https://www.sec.gov//a.txt'')])"
  by (simp add: web_eval txt_before_xml_world_def)




text \<open>
  C4. The claim: whatever goes wrong, the selector returns the absence signal and never
  raises, so that no failure of one filing ends the run. The download of the detail
  page (line 112), the use of the table (line 121) and the call of \<open>int\<close> (line 144) stand
  outside every \<open>try\<close>: with no connection the exception of the request leaves the
  function, on a page without a table of class tableFile an AttributeError does, and on a
  Content-length header that is no number a ValueError does. \<open>main\<close> calls the selector
  without a \<open>try\<close>: when the index page lists two filings and the first detail page cannot
  be fetched, the run ends there, and the second filing is never requested.
\<close>

theorem C4_selector_raises:
  "extract_data_from_text_files offline_world (py ''https://www.sec.gov/d'')
     = (Inl ConnectionError, [Get (py ''https://www.sec.gov/d'')])
   \<and> extract_data_from_text_files no_table_world (py ''https://www.sec.gov/d'')
     = (Inl AttributeError, [Get (py ''https://www.sec.gov/d'')])
   \<and> extract_data_from_text_files bad_header_world (py ''https://www.sec.gov/d'')
     = (Inl ValueError,
        [Get (py ''https://www.sec.gov/d''), Probe (py ''https://www.sec.gov//a.txt'')])
   \<and> get_soup_contents details_down_world (py ''INDEX'') []
     = Inr [(py ''13F-HR'', py ''https://www.sec.gov//A/1'', py ''2019-02-14''),
            (py ''10-K'', py ''https://www.sec.gov//A/2'', py ''2019-03-01'')]
   \<and> main details_down_world (\<lambda>chunk. True) (py ''1'') []
     = (Some ConnectionError,
        \<lparr>files = [], results_files = [],
         requests = [Get (build_url (py ''1'')), Get (py ''https://www.sec.gov//A/1'')]\<rparr>)"
  by (simp add: web_eval lister_eval main_def build_url_def offline_world_def
      no_table_world_def bad_header_world_def details_down_world_def)

text \<open>
  C10. On a detail page whose table links neither an \<open>.xml\<close> nor a \<open>.txt\<close> document, no
  candidate is collected, the search for the smallest leaves the empty link, the request
  of the empty link raises, and the selector returns \<open>None\<close>.
\<close>

theorem C10_no_candidate_gives_none:
  assumes page: "make_request w link = Inr page"
    and table: "tableFile w page = Inr (Some hrefs)"
    and none: "\<forall>h \<in> set hrefs. \<not> py_in (py ''.xml'') h \<and> \<not> py_in (py ''.txt'') h"
  shows "links_loop hrefs [] = ([], False)
     \<and> smallest_loop [] 1000000000000000000000000000 [] = (1000000000000000000000000000, [])
     \<and> make_request w [] = Inl MissingSchema
     \<and> extract_data_from_text_files w link = (Inr None, [Get link, Get []])"
proof -
  have no_xml: "\<forall>h \<in> set hrefs. \<not> py_in (py ''.xml'') h" using none by simp
  have "filter (py_in (py ''.txt'')) hrefs = []" using none by (simp add: filter_empty_conv)
  then have links: "links_loop hrefs [] = ([], False)"
    using links_loop_no_xml [OF no_xml, of "[]"] by simp
  have req: "make_request w [] = Inl MissingSchema" by (simp add: make_request_def)
  have "extract_data_from_text_files w link = (Inr None, [Get link, Get []])"
    by (simp add: extract_data_from_text_files_def page table links req)
  with links req show ?thesis by simp
qed

theorem C10_no_candidate_gives_none_witness:
  "extract_data_from_text_files no_docs_world (py ''https://www.sec.gov/d'')
     = (Inr None, [Get (py ''https://www.sec.gov/d''), Get []])"
  using C10_no_candidate_gives_none
    [of no_docs_world "py ''https://www.sec.gov/d''" "py ''PAGE''" "[py ''/x.htm'']"]
  by (simp add: web_eval no_docs_world_def)

text \<open>
  C6. On an index page with its table of filings, the Filing Lister returns at most one
  filing a row, in the order of the rows; every title returned contains the filter as a
  substring, character for character; the result is the filings of the parseable rows
  whose title contains the filter, so the empty filter returns them all; and a row of
  fewer than four cells adds nothing and stops nothing.
\<close>

theorem C6_filing_lister:
  assumes table: "tableFile2 w page = Inr (Some rows)"
  shows "\<exists>fs. get_soup_contents w page filter_text = Inr fs
     \<and> length fs \<le> length rows
     \<and> fs = concat (map (row_filings filter_text) rows)
     \<and> (\<forall>r \<in> set fs. py_in filter_text (fst r))
     \<and> fs = filter (\<lambda>r. py_in filter_text (fst r)) (List.map_filter spec_filing rows)
     \<and> get_soup_contents w page [] = Inr (List.map_filter spec_filing rows)
     \<and> (\<forall>row \<in> set rows. length row < 4 \<longrightarrow> row_filings filter_text row = [])"
proof -
  let ?fs = "concat (map (row_filings filter_text) rows)"
  have run: "get_soup_contents w page f = Inr (concat (map (row_filings f) rows))" for f
    by (simp add: get_soup_contents_def table rows_loop_concat)
  have len: "length ?fs \<le> length rows"
    by (rule length_concat_le, rule ballI, rule length_row_filings)
  have filt: "?fs = filter (\<lambda>r. py_in filter_text (fst r)) (List.map_filter spec_filing rows)"
    by (simp only: concat_row_filings_filter [of filter_text] concat_row_filings_all)
  then have titles: "\<forall>r \<in> set ?fs. py_in filter_text (fst r)" by simp
  have all: "get_soup_contents w page [] = Inr (List.map_filter spec_filing rows)"
    by (simp only: run concat_row_filings_all)
  have short: "\<forall>row \<in> set rows. length row < 4 \<longrightarrow> row_filings filter_text row = []"
    by (simp add: row_filings_short)
  show ?thesis
    by (rule exI [of _ ?fs]) (intro conjI run len refl titles filt all short)
qed

theorem C6_filing_lister_witness:
  "get_soup_contents index_world (py ''INDEX'') (py ''13F'')
     = Inr [(py ''13F-HR'', py ''https://www.sec.gov//A/1'', py ''2019-02-14'')]
   \<and> get_soup_contents index_world (py ''INDEX'') (py ''13f'') = Inr []
   \<and> get_soup_contents index_world (py ''INDEX'') []
     = Inr [(py ''13F-HR'', py ''https://www.sec.gov//A/1'', py ''2019-02-14''),
            (py ''10-K'', py ''https://www.sec.gov//A/2'', py ''2019-03-01'')]"
proof -
  have table: "tableFile2 index_world (py ''INDEX'') = Inr (Some index_rows)"
    by (simp add: index_world_def)
  have run: ?thesis
    by (simp add: lister_eval)
  from C6_filing_lister [OF table, of "py ''13F''"] show ?thesis
    by - (rule run)
qed

end
